theory Spec2Isabelle
  imports Main
begin

section \<open>Text, standard output and the library functions the script calls\<close>

text \<open>
  The script \<^verbatim>\<open>src/mechanics/ctx.py\<close> walks a directory, and prints every file whose
  extension is one of three, framed by a header and a code fence.

  A Python \<^verbatim>\<open>str\<close> is modelled by a \<^typ>\<open>string\<close> holding its UTF-8 bytes, and the
  standard output by the text written to it so far. Standard output is taken to accept
  every text (a UTF-8 stream on a POSIX system): \<^verbatim>\<open>print(s)\<close> appends \<open>s\<close> and a
  newline, and never raises. The section on a standard output that can fail gives the
  script without this assumption.
\<close>

type_synonym stdout = string

definition print :: "string \<Rightarrow> stdout \<Rightarrow> stdout" where
  "print s out = out @ s @ ''\<newline>''"

text \<open>
  \<^verbatim>\<open>str.lower\<close>: the letters A to Z (bytes 65 to 90) get bit 5 set, every other byte
  is kept. (Python lower-cases other code points too, but none of them becomes one of the
  letters of \<^verbatim>\<open>.rs\<close>, \<^verbatim>\<open>.toml\<close> or \<^verbatim>\<open>.md\<close>, so the membership test of the script is
  the same.)
\<close>

definition lower_char :: "char \<Rightarrow> char" where
  "lower_char c =
     (if 65 \<le> (of_char c :: nat) \<and> (of_char c :: nat) \<le> 90
      then (case c of Char b0 b1 b2 b3 b4 b5 b6 b7 \<Rightarrow> Char b0 b1 b2 b3 b4 True b6 b7)
      else c)"

definition lower :: "string \<Rightarrow> string" where
  "lower s = map lower_char s"

text \<open>\<^verbatim>\<open>str.rfind(c)\<close>: the index of the last \<open>c\<close>, or \<open>-1\<close>.\<close>

fun rfind_from :: "string \<Rightarrow> char \<Rightarrow> int \<Rightarrow> int \<Rightarrow> int" where
  "rfind_from [] c i found = found"
| "rfind_from (x # xs) c i found = rfind_from xs c (i + 1) (if x = c then i else found)"

definition rfind :: "string \<Rightarrow> char \<Rightarrow> int" where
  "rfind p c = rfind_from p c 0 (- 1)"

text \<open>
  \<^verbatim>\<open>os.path.splitext\<close> (\<^verbatim>\<open>genericpath._splitext\<close> with \<^verbatim>\<open>sep = '/'\<close>, no \<^verbatim>\<open>altsep\<close>
  and \<^verbatim>\<open>extsep = '.'\<close>):
  \<^verbatim>\<open>
    sepIndex = p.rfind(sep)
    dotIndex = p.rfind(extsep)
    if dotIndex > sepIndex:
        # skip all leading dots
        filenameIndex = sepIndex + 1
        while filenameIndex < dotIndex:
            if p[filenameIndex:filenameIndex+1] != extsep:
                return p[:dotIndex], p[dotIndex:]
            filenameIndex += 1
    return p, p[:0]
  \<close>
\<close>

function splitext_loop :: "string \<Rightarrow> int \<Rightarrow> int \<Rightarrow> string \<times> string" where
  "splitext_loop p filenameIndex dotIndex =
     (if filenameIndex < dotIndex then
        (if take 1 (drop (nat filenameIndex) p) \<noteq> ''.''
         then (take (nat dotIndex) p, drop (nat dotIndex) p)
         else splitext_loop p (filenameIndex + 1) dotIndex)
      else (p, []))"
  by pat_completeness auto
termination
  by (relation "measure (\<lambda>(p, filenameIndex, dotIndex). nat (dotIndex - filenameIndex))") auto

definition splitext :: "string \<Rightarrow> string \<times> string" where
  "splitext p =
     (let sepIndex = rfind p (CHR ''/'');
          dotIndex = rfind p (CHR ''.'')
      in if dotIndex > sepIndex then splitext_loop p (sepIndex + 1) dotIndex else (p, []))"

text \<open>
  \<^verbatim>\<open>os.path.join(a, b)\<close> (\<^verbatim>\<open>posixpath.join\<close> with one component):
  \<^verbatim>\<open>
    if b.startswith(sep) or not path: path = b
    elif path.endswith(sep):          path += b
    else:                             path += sep + b
  \<close>
\<close>

definition startswith :: "string \<Rightarrow> string \<Rightarrow> bool" where
  "startswith s prefix = (take (length prefix) s = prefix)"

definition endswith :: "string \<Rightarrow> string \<Rightarrow> bool" where
  "endswith s suffix = (length suffix \<le> length s \<and> drop (length s - length suffix) s = suffix)"

definition join :: "string \<Rightarrow> string \<Rightarrow> string" where
  "join a b =
     (if startswith b ''/'' \<or> a = [] then b
      else if endswith a ''/'' then a @ b
      else a @ ''/'' @ b)"

section \<open>The environment: the directory walk and the reading of a file\<close>

text \<open>
  The exceptions that opening and reading a file raise, all of them instances of
  \<^verbatim>\<open>Exception\<close>: an \<^verbatim>\<open>OSError\<close> with its message (permission denied, an I/O error), a
  \<^verbatim>\<open>FileNotFoundError\<close> with the path, a \<^verbatim>\<open>UnicodeDecodeError\<close> with the encoding, the
  bytes and the offset of the first byte that does not decode, and a \<^verbatim>\<open>LookupError\<close>
  with the name of an encoding that is not known. Writing to the standard output raises
  an \<^verbatim>\<open>OSError\<close>, or a \<^verbatim>\<open>UnicodeEncodeError\<close> with the encoding, the text and the offset of
  what does not encode.
\<close>

datatype exn =
  OSError string
| FileNotFoundError string
| UnicodeDecodeError string string nat
| LookupError string
| UnicodeEncodeError string string nat

text \<open>
  What the script asks of its environment:
  \<^item> \<open>os_walk base_dir\<close> is the sequence \<^verbatim>\<open>os.walk(base_dir)\<close> yields, one triple
    \<open>(root, dirs, files)\<close> per directory, in the order of the walk;
  \<^item> \<open>open_read path encoding\<close> is the outcome of
    \<^verbatim>\<open>with open(path, "r", encoding=encoding) as f: content = f.read()\<close>:
    \<open>Inr content\<close>, or \<open>Inl e\<close> when \<^verbatim>\<open>open\<close> or \<^verbatim>\<open>read\<close> raises \<open>e\<close>;
  \<^item> \<open>str_exn e\<close> is the text \<^verbatim>\<open>{e}\<close> formats an exception to.
\<close>

record env =
  os_walk :: "string \<Rightarrow> (string \<times> string list \<times> string list) list"
  open_read :: "string \<Rightarrow> string \<Rightarrow> exn + string"
  str_exn :: "exn \<Rightarrow> string"

section \<open>The script\<close>

definition valid_extensions :: "string set" where
  "valid_extensions = {''.rs'', ''.toml'', ''.md''}"

text \<open>
  The body of the inner loop, for one \<open>file\<close> of the directory \<open>root\<close>. The four
  \<^verbatim>\<open>print\<close> calls stand in the \<^verbatim>\<open>try\<close> block after the read; the handler of
  \<^verbatim>\<open>except Exception as e\<close> is the \<open>Inl\<close> branch.
\<close>

definition loop_body :: "env \<Rightarrow> string \<Rightarrow> string \<Rightarrow> stdout \<Rightarrow> stdout" where
  "loop_body env root file out =
     (let (_, ext) = splitext file in
      if lower ext \<in> valid_extensions then
        (let file_path = join root file in
         case open_read env file_path ''utf-8'' of
           Inr content \<Rightarrow>
             (let out1 = print (''### '' @ file_path @ ''\<newline>'') out;
                  out2 = print ''```'' out1;
                  out3 = print content out2
              in print ''```\<newline>'' out3)
         | Inl e \<Rightarrow> print (''Could not read '' @ file_path @ '': '' @ str_exn env e) out)
      else out)"

fun for_files :: "env \<Rightarrow> string \<Rightarrow> string list \<Rightarrow> stdout \<Rightarrow> stdout" where
  "for_files env root [] out = out"
| "for_files env root (file # files) out = for_files env root files (loop_body env root file out)"

fun for_walk :: "env \<Rightarrow> (string \<times> string list \<times> string list) list \<Rightarrow> stdout \<Rightarrow> stdout" where
  "for_walk env [] out = out"
| "for_walk env ((root, dirs, files) # rest) out = for_walk env rest (for_files env root files out)"

text \<open>\<^verbatim>\<open>def read_files_recursively(base_dir=".")\<close>: \<open>None\<close> is the call without an argument.\<close>

definition read_files_recursively :: "env \<Rightarrow> string option \<Rightarrow> stdout \<Rightarrow> stdout" where
  "read_files_recursively env arg out =
     (let base_dir = (case arg of None \<Rightarrow> ''.'' | Some d \<Rightarrow> d)
      in for_walk env (os_walk env base_dir) out)"

text \<open>
  The script run as a program with the command line \<open>argv\<close>, on a standard output that
  accepts everything: what it has written when it ends, and its exit status (0: the end of
  the script was reached). The run on a standard output that can fail is \<open>run_script\<close>
  below.
\<close>

definition main :: "env \<Rightarrow> string list \<Rightarrow> stdout \<times> int" where
  "main env argv = (read_files_recursively env (Some ''.'') [], 0)"

section \<open>A directory tree, and the library on it\<close>

text \<open>
  A directory holds files and directories, in the order in which the system lists them.
  A file is its bytes, or the exception that opening or reading it raises.
\<close>

datatype file_content = Unreadable exn | Bytes string

datatype node = File string file_content | Dir string "node list"


fun filenames :: "node list \<Rightarrow> string list" where
  "filenames [] = []"
| "filenames (File n c # es) = n # filenames es"
| "filenames (Dir n sub # es) = filenames es"

fun dirnames :: "node list \<Rightarrow> string list" where
  "dirnames [] = []"
| "dirnames (File n c # es) = dirnames es"
| "dirnames (Dir n sub # es) = n # dirnames es"

text \<open>
  \<^verbatim>\<open>os.walk(top)\<close>, top-down: the directory itself first, then the walk of each of its
  directories, in their order.
  \<^verbatim>\<open>
    yield top, dirs, nondirs
    for dirname in dirs:
        new_path = join(top, dirname)
        yield from walk(new_path)
  \<close>
\<close>

fun tree_walk :: "string \<Rightarrow> node list \<Rightarrow> (string \<times> string list \<times> string list) list"
  and tree_walk_dirs :: "string \<Rightarrow> node list \<Rightarrow> (string \<times> string list \<times> string list) list" where
  "tree_walk top_dir es = (top_dir, dirnames es, filenames es) # tree_walk_dirs top_dir es"
| "tree_walk_dirs top_dir [] = []"
| "tree_walk_dirs top_dir (File n c # es) = tree_walk_dirs top_dir es"
| "tree_walk_dirs top_dir (Dir n sub # es) =
     tree_walk (join top_dir n) sub @ tree_walk_dirs top_dir es"

text \<open>
  The files beneath a directory, each with the directory it lies in, its name and what it
  holds, in the order of the walk. The file that a path names is the one listed with it.
\<close>

fun files_in :: "string \<Rightarrow> node list \<Rightarrow> (string \<times> string \<times> file_content) list" where
  "files_in d [] = []"
| "files_in d (File n c # es) = (d, n, c) # files_in d es"
| "files_in d (Dir n sub # es) = files_in d es"

fun tree_files :: "string \<Rightarrow> node list \<Rightarrow> (string \<times> string \<times> file_content) list"
  and tree_files_dirs :: "string \<Rightarrow> node list \<Rightarrow> (string \<times> string \<times> file_content) list" where
  "tree_files d es = files_in d es @ tree_files_dirs d es"
| "tree_files_dirs d [] = []"
| "tree_files_dirs d (File n c # es) = tree_files_dirs d es"
| "tree_files_dirs d (Dir n sub # es) = tree_files (join d n) sub @ tree_files_dirs d es"

definition lookup_file :: "string \<Rightarrow> node list \<Rightarrow> string \<Rightarrow> file_content option" where
  "lookup_file base es path = map_of (map (\<lambda>(r, n, c). (join r n, c)) (tree_files base es)) path"

text \<open>
  The strict UTF-8 decoder. The text it returns is modelled by its UTF-8 bytes, so decoding
  checks the bytes and keeps them. \<open>utf8_error pos bs\<close> is the offset of the first
  sequence of \<open>bs\<close> that is not well-formed UTF-8 (no overlong form, no surrogate,
  nothing above U+10FFFF), counted from \<open>pos\<close>.
\<close>

definition in_range :: "nat \<Rightarrow> nat \<Rightarrow> char \<Rightarrow> bool" where
  "in_range lo hi c = (lo \<le> of_char c \<and> (of_char c :: nat) \<le> hi)"

definition second_ok :: "char \<Rightarrow> char \<Rightarrow> bool" where
  "second_ok lead c =
     (if of_char lead = (224::nat) then in_range 160 191 c
      else if of_char lead = (237::nat) then in_range 128 159 c
      else if of_char lead = (240::nat) then in_range 144 191 c
      else if of_char lead = (244::nat) then in_range 128 143 c
      else in_range 128 191 c)"

fun utf8_error :: "nat \<Rightarrow> string \<Rightarrow> nat option" where
  "utf8_error pos [] = None"
| "utf8_error pos (c # cs) =
     (if in_range 0 127 c then utf8_error (pos + 1) cs
      else if in_range 194 223 c then
        (case cs of
           c1 # r \<Rightarrow> if in_range 128 191 c1 then utf8_error (pos + 2) r else Some pos
         | _ \<Rightarrow> Some pos)
      else if in_range 224 239 c then
        (case cs of
           c1 # c2 # r \<Rightarrow>
             if second_ok c c1 \<and> in_range 128 191 c2 then utf8_error (pos + 3) r else Some pos
         | _ \<Rightarrow> Some pos)
      else if in_range 240 244 c then
        (case cs of
           c1 # c2 # c3 # r \<Rightarrow>
             if second_ok c c1 \<and> in_range 128 191 c2 \<and> in_range 128 191 c3
             then utf8_error (pos + 4) r else Some pos
         | _ \<Rightarrow> Some pos)
      else Some pos)"

definition decode :: "string \<Rightarrow> string \<Rightarrow> exn + string" where
  "decode encoding bs =
     (if encoding = ''utf-8'' then
        (case utf8_error 0 bs of
           None \<Rightarrow> Inr bs
         | Some pos \<Rightarrow> Inl (UnicodeDecodeError encoding bs pos))
      else Inl (LookupError encoding))"

text \<open>
  A file opened in text mode with the default \<^verbatim>\<open>newline=None\<close> is read with universal
  newlines: \<^verbatim>\<open>\r\n\<close> and a lone \<^verbatim>\<open>\r\<close> come back as \<^verbatim>\<open>\n\<close>.
\<close>

fun universal_newlines :: "string \<Rightarrow> string" where
  "universal_newlines [] = []"
| "universal_newlines [c] = (if c = CHR 0x0D then ''\<newline>'' else [c])"
| "universal_newlines (c # d # cs) =
     (if c = CHR 0x0D \<and> d = CHR ''\<newline>'' then CHR ''\<newline>'' # universal_newlines cs
      else if c = CHR 0x0D then CHR ''\<newline>'' # universal_newlines (d # cs)
      else c # universal_newlines (d # cs))"

text \<open>
  \<^verbatim>\<open>with open(path, "r", encoding=encoding) as f: content = f.read()\<close> on the tree: the
  whole file is decoded, then its newlines are translated.
\<close>

definition tree_open_read :: "string \<Rightarrow> node list \<Rightarrow> string \<Rightarrow> string \<Rightarrow> exn + string" where
  "tree_open_read base es path encoding =
     (case lookup_file base es path of
        None \<Rightarrow> Inl (FileNotFoundError path)
      | Some (Unreadable e) \<Rightarrow> Inl e
      | Some (Bytes bs) \<Rightarrow>
          (case decode encoding bs of
             Inl e \<Rightarrow> Inl e
           | Inr text \<Rightarrow> Inr (universal_newlines text)))"

text \<open>
  The environment of a run in which the directory \<open>base\<close> holds \<open>es\<close>. Walking any other
  directory yields nothing, as \<^verbatim>\<open>os.walk\<close> does for a directory that is not there.
  \<open>render\<close> is Python's formatting of an exception.
\<close>

definition tree_env :: "(exn \<Rightarrow> string) \<Rightarrow> string \<Rightarrow> node list \<Rightarrow> env" where
  "tree_env render base es =
     \<lparr> os_walk = (\<lambda>d. if d = base then tree_walk base es else []),
       open_read = tree_open_read base es,
       str_exn = render \<rparr>"

text \<open>
  What a file system guarantees of a directory: a name is not empty and holds no
  \<^verbatim>\<open>/\<close>, and no two entries of one directory share a name.
\<close>

definition valid_name :: "string \<Rightarrow> bool" where
  "valid_name n = (n \<noteq> [] \<and> CHR ''/'' \<notin> set n)"


text \<open>A formatting of exceptions for the examples: the name of the class.\<close>

fun class_name :: "exn \<Rightarrow> string" where
  "class_name (OSError m) = ''OSError''"
| "class_name (FileNotFoundError p) = ''FileNotFoundError''"
| "class_name (UnicodeDecodeError enc bs pos) = ''UnicodeDecodeError''"
| "class_name (LookupError enc) = ''LookupError''"
| "class_name (UnicodeEncodeError enc s pos) = ''UnicodeEncodeError''"

section \<open>The script on a standard output that can fail\<close>














section \<open>What one run prints\<close>

text \<open>The files of a walk in the order the loops reach them, and the path of each.\<close>

definition visits :: "(string \<times> string list \<times> string list) list \<Rightarrow> (string \<times> string) list" where
  "visits w = concat (map (\<lambda>(root, dirs, files). map (Pair root) files) w)"

definition path_of :: "string \<times> string \<Rightarrow> string" where
  "path_of v = join (fst v) (snd v)"

definition matches :: "string \<Rightarrow> bool" where
  "matches file = (lower (snd (splitext file)) \<in> valid_extensions)"

text \<open>The text one iteration of the inner loop writes.\<close>

definition emitted :: "env \<Rightarrow> string \<times> string \<Rightarrow> string" where
  "emitted env v = loop_body env (fst v) (snd v) []"

text \<open>The two texts the script writes for a file it reads: the framed content, and the diagnostic.\<close>

definition block :: "string \<Rightarrow> string \<Rightarrow> string" where
  "block file_path content =
     ''### '' @ file_path @ ''\<newline>\<newline>```\<newline>'' @ content @ ''\<newline>```\<newline>\<newline>''"

definition diagnostic :: "string \<Rightarrow> string \<Rightarrow> string" where
  "diagnostic file_path message = ''Could not read '' @ file_path @ '': '' @ message @ ''\<newline>''"




section \<open>Lemmas on the loops\<close>

lemma loop_body_append: "loop_body env root file out = out @ emitted env (root, file)"
  by (simp add: loop_body_def emitted_def print_def Let_def case_prod_beta split: sum.splits)

lemma for_files_append:
  "for_files env root files out = out @ concat (map (\<lambda>file. emitted env (root, file)) files)"
proof (induction files arbitrary: out)
  case Nil
  show ?case by simp
next
  case (Cons f fs)
  show ?case
    by (simp add: Cons.IH loop_body_append [of env root f out])
qed

lemma for_walk_append: "for_walk env w out = out @ concat (map (emitted env) (visits w))"
proof (induction w arbitrary: out)
  case Nil
  show ?case by (simp add: visits_def)
next
  case (Cons t w)
  obtain root dirs files where t: "t = (root, dirs, files)"
    by (cases t)
  have "concat (map (emitted env) (map (Pair root) files))
      = concat (map (\<lambda>file. emitted env (root, file)) files)"
    by (simp add: comp_def)
  then show ?case
    by (simp add: t Cons.IH for_files_append visits_def)
qed

lemma emitted_no_match: "\<not> matches (snd v) \<Longrightarrow> emitted env v = []"
  by (simp add: emitted_def loop_body_def matches_def case_prod_beta)

lemma emitted_read:
  "matches (snd v) \<Longrightarrow> open_read env (path_of v) ''utf-8'' = Inr content \<Longrightarrow>
   emitted env v = block (path_of v) content"
  by (simp add: emitted_def loop_body_def matches_def path_of_def block_def print_def Let_def
      case_prod_beta)

lemma emitted_failed:
  "matches (snd v) \<Longrightarrow> open_read env (path_of v) ''utf-8'' = Inl e \<Longrightarrow>
   emitted env v = diagnostic (path_of v) (str_exn env e)"
  by (simp add: emitted_def loop_body_def matches_def path_of_def diagnostic_def print_def Let_def
      case_prod_beta)

lemma run_output:
  "read_files_recursively env (Some base_dir) out
     = out @ concat (map (emitted env) (visits (os_walk env base_dir)))"
  by (simp add: read_files_recursively_def for_walk_append)






section \<open>Lemmas on the directory tree\<close>






















lemma chunks_filter:
  "concat (map (\<lambda>f. emitted env (root, f)) (filter matches files))
     = concat (map (\<lambda>f. emitted env (root, f)) files)"
  by (induction files) (simp_all add: emitted_no_match)

lemma for_walk_filter:
  "for_walk env (map (\<lambda>(root, dirs, files). (root, dirs, filter matches files)) w) out
     = for_walk env w out"
proof (induction w arbitrary: out)
  case Nil
  show ?case by simp
next
  case (Cons t w)
  obtain root dirs files where t: "t = (root, dirs, files)"
    by (cases t)
  show ?case
    by (simp add: t Cons.IH for_files_append chunks_filter)
qed



section \<open>The claims\<close>

text \<open>
  The facts that evaluate the library functions and the tree on concrete inputs.
\<close>

lemmas path_simps = splitext_def rfind_def lower_def lower_char_def join_def startswith_def
  endswith_def

lemmas tree_simps = tree_env_def tree_open_read_def lookup_file_def decode_def in_range_def
  second_ok_def valid_name_def





text \<open>
  C3. A file whose lower-cased extension is none of \<^verbatim>\<open>.rs\<close>, \<^verbatim>\<open>.toml\<close>, \<^verbatim>\<open>.md\<close> leaves
  the output as it was (no header, no fence, no diagnostic); and a run prints what it
  would print if the walk did not list such files at all.
\<close>

theorem other_extension_prints_nothing:
  assumes "lower (snd (splitext file)) \<notin> {''.rs'', ''.toml'', ''.md''}"
  shows "loop_body env root file out = out
       \<and> read_files_recursively env (Some base_dir) out
           = for_walk env
               (map (\<lambda>(root, dirs, files).
                       (root, dirs,
                        filter (\<lambda>f. lower (snd (splitext f)) \<in> {''.rs'', ''.toml'', ''.md''}) files))
                    (os_walk env base_dir)) out"
proof -
  have "\<not> matches (snd (root, file))"
    using assms by (simp add: matches_def valid_extensions_def)
  then have "loop_body env root file out = out"
    by (simp add: loop_body_append emitted_no_match)
  moreover have "(\<lambda>f. lower (snd (splitext f)) \<in> {''.rs'', ''.toml'', ''.md''}) = matches"
    by (simp add: matches_def valid_extensions_def fun_eq_iff)
  ultimately show ?thesis
    by (simp add: read_files_recursively_def for_walk_filter)
qed

theorem other_extension_prints_nothing_witness:
  "lower (snd (splitext ''c.txt'')) \<notin> {''.rs'', ''.toml'', ''.md''}
   \<and> loop_body (tree_env class_name ''.'' [File ''c.txt'' (Bytes ''text''), File ''a.rs'' (Bytes ''x'')])
         ''.'' ''c.txt'' ''earlier'' = ''earlier''
   \<and> read_files_recursively
         (tree_env class_name ''.'' [File ''c.txt'' (Bytes ''text''), File ''a.rs'' (Bytes ''x'')])
         (Some ''.'') ''earlier''
       = ''earlier'' @ ''### ./a.rs\<newline>\<newline>```\<newline>x\<newline>```\<newline>\<newline>''"
proof -
  have h: "lower (snd (splitext ''c.txt'')) \<notin> {''.rs'', ''.toml'', ''.md''}"
    by (simp add: path_simps)
  show ?thesis
    using other_extension_prints_nothing [OF h,
        of "tree_env class_name ''.'' [File ''c.txt'' (Bytes ''text''), File ''a.rs'' (Bytes ''x'')]"
        "''.''" "''earlier''" "''.''"] h
    by (simp add: loop_body_def print_def valid_extensions_def path_simps tree_simps)
qed

text \<open>
  C5. The output is a function of the walk and of what the visited files hold: two runs
  whose walks of the base directory are the same, whose exceptions format alike and whose
  reads agree on every visited file with one of the three extensions print the same text.
\<close>

theorem output_determined_by_walk_and_contents:
  assumes "os_walk env1 base_dir = os_walk env2 base_dir"
    and "str_exn env1 = str_exn env2"
    and "\<forall>v \<in> set (visits (os_walk env1 base_dir)).
           lower (snd (splitext (snd v))) \<in> {''.rs'', ''.toml'', ''.md''} \<longrightarrow>
           open_read env1 (path_of v) ''utf-8'' = open_read env2 (path_of v) ''utf-8''"
  shows "read_files_recursively env1 (Some base_dir) out
       = read_files_recursively env2 (Some base_dir) out"
proof -
  have "emitted env1 v = emitted env2 v" if "v \<in> set (visits (os_walk env1 base_dir))" for v
  proof (cases "matches (snd v)")
    case True
    then have "lower (snd (splitext (snd v))) \<in> {''.rs'', ''.toml'', ''.md''}"
      by (simp add: matches_def valid_extensions_def)
    with assms(3) that
    have "open_read env1 (path_of v) ''utf-8'' = open_read env2 (path_of v) ''utf-8''"
      by blast
    then show ?thesis
      by (cases "open_read env2 (path_of v) ''utf-8''")
        (simp_all add: emitted_read emitted_failed True assms(2))
  next
    case False
    then show ?thesis by (simp add: emitted_no_match)
  qed
  then have same: "map (emitted env1) (visits (os_walk env1 base_dir))
           = map (emitted env2) (visits (os_walk env1 base_dir))"
    by simp
  have "read_files_recursively env1 (Some base_dir) out
      = out @ concat (map (emitted env1) (visits (os_walk env1 base_dir)))"
    by (rule run_output)
  also have "\<dots> = out @ concat (map (emitted env2) (visits (os_walk env1 base_dir)))"
    by (simp only: same)
  also have "\<dots> = out @ concat (map (emitted env2) (visits (os_walk env2 base_dir)))"
    by (simp only: assms(1))
  also have "\<dots> = read_files_recursively env2 (Some base_dir) out"
    by (simp only: run_output)
  finally show ?thesis .
qed

theorem output_determined_by_walk_and_contents_witness:
  "os_walk (tree_env class_name ''.'' [File ''a.rs'' (Bytes ''x''), File ''c.txt'' (Bytes ''one'')]) ''.''
     = os_walk (tree_env class_name ''.'' [File ''a.rs'' (Bytes ''x''), File ''c.txt'' (Bytes ''two'')]) ''.''
   \<and> str_exn (tree_env class_name ''.'' [File ''a.rs'' (Bytes ''x''), File ''c.txt'' (Bytes ''one'')])
     = str_exn (tree_env class_name ''.'' [File ''a.rs'' (Bytes ''x''), File ''c.txt'' (Bytes ''two'')])
   \<and> open_read (tree_env class_name ''.'' [File ''a.rs'' (Bytes ''x''), File ''c.txt'' (Bytes ''one'')])
         ''./a.rs'' ''utf-8''
     = open_read (tree_env class_name ''.'' [File ''a.rs'' (Bytes ''x''), File ''c.txt'' (Bytes ''two'')])
         ''./a.rs'' ''utf-8''
   \<and> read_files_recursively
         (tree_env class_name ''.'' [File ''a.rs'' (Bytes ''x''), File ''c.txt'' (Bytes ''one'')])
         (Some ''.'') []
     = read_files_recursively
         (tree_env class_name ''.'' [File ''a.rs'' (Bytes ''x''), File ''c.txt'' (Bytes ''two'')])
         (Some ''.'') []"
proof -
  let ?env1 = "tree_env class_name ''.'' [File ''a.rs'' (Bytes ''x''), File ''c.txt'' (Bytes ''one'')]"
  let ?env2 = "tree_env class_name ''.'' [File ''a.rs'' (Bytes ''x''), File ''c.txt'' (Bytes ''two'')]"
  have h1: "os_walk ?env1 ''.'' = os_walk ?env2 ''.''"
    by (simp add: tree_simps)
  have h2: "str_exn ?env1 = str_exn ?env2"
    by (simp add: tree_simps)
  have r: "open_read ?env1 ''./a.rs'' ''utf-8'' = open_read ?env2 ''./a.rs'' ''utf-8''"
    by (simp add: path_simps tree_simps)
  have h3: "\<forall>v \<in> set (visits (os_walk ?env1 ''.'')).
           lower (snd (splitext (snd v))) \<in> {''.rs'', ''.toml'', ''.md''} \<longrightarrow>
           open_read ?env1 (path_of v) ''utf-8'' = open_read ?env2 (path_of v) ''utf-8''"
    by (simp add: visits_def path_of_def path_simps tree_simps)
  show ?thesis
    using output_determined_by_walk_and_contents [OF h1 h2 h3, of "[]"] h1 h2 r by simp
qed




text \<open>
  C7. The root holds \<^verbatim>\<open>a.rs\<close> with \<^verbatim>\<open>fn main(){}\<close>, \<^verbatim>\<open>b.toml\<close> with \<^verbatim>\<open>[x]\ny=1\<close> and
  \<^verbatim>\<open>c.txt\<close> with anything: in each of the six orders in which the directory can list
  them, the output is the block of \<^verbatim>\<open>a.rs\<close> and the block of \<^verbatim>\<open>b.toml\<close> with their
  exact content, in the order of the listing, and nothing for \<^verbatim>\<open>c.txt\<close>.
\<close>

theorem scenario_three_files:
  "fst (main (tree_env render ''.''
      [File ''a.rs'' (Bytes ''fn main(){}''), File ''b.toml'' (Bytes ''[x]\<newline>y=1''), File ''c.txt'' c]) argv)
     = ''### ./a.rs\<newline>\<newline>```\<newline>fn main(){}\<newline>```\<newline>\<newline>''
       @ ''### ./b.toml\<newline>\<newline>```\<newline>[x]\<newline>y=1\<newline>```\<newline>\<newline>''
   \<and> fst (main (tree_env render ''.''
      [File ''a.rs'' (Bytes ''fn main(){}''), File ''c.txt'' c, File ''b.toml'' (Bytes ''[x]\<newline>y=1'')]) argv)
     = ''### ./a.rs\<newline>\<newline>```\<newline>fn main(){}\<newline>```\<newline>\<newline>''
       @ ''### ./b.toml\<newline>\<newline>```\<newline>[x]\<newline>y=1\<newline>```\<newline>\<newline>''
   \<and> fst (main (tree_env render ''.''
      [File ''c.txt'' c, File ''a.rs'' (Bytes ''fn main(){}''), File ''b.toml'' (Bytes ''[x]\<newline>y=1'')]) argv)
     = ''### ./a.rs\<newline>\<newline>```\<newline>fn main(){}\<newline>```\<newline>\<newline>''
       @ ''### ./b.toml\<newline>\<newline>```\<newline>[x]\<newline>y=1\<newline>```\<newline>\<newline>''
   \<and> fst (main (tree_env render ''.''
      [File ''b.toml'' (Bytes ''[x]\<newline>y=1''), File ''a.rs'' (Bytes ''fn main(){}''), File ''c.txt'' c]) argv)
     = ''### ./b.toml\<newline>\<newline>```\<newline>[x]\<newline>y=1\<newline>```\<newline>\<newline>''
       @ ''### ./a.rs\<newline>\<newline>```\<newline>fn main(){}\<newline>```\<newline>\<newline>''
   \<and> fst (main (tree_env render ''.''
      [File ''b.toml'' (Bytes ''[x]\<newline>y=1''), File ''c.txt'' c, File ''a.rs'' (Bytes ''fn main(){}'')]) argv)
     = ''### ./b.toml\<newline>\<newline>```\<newline>[x]\<newline>y=1\<newline>```\<newline>\<newline>''
       @ ''### ./a.rs\<newline>\<newline>```\<newline>fn main(){}\<newline>```\<newline>\<newline>''
   \<and> fst (main (tree_env render ''.''
      [File ''c.txt'' c, File ''b.toml'' (Bytes ''[x]\<newline>y=1''), File ''a.rs'' (Bytes ''fn main(){}'')]) argv)
     = ''### ./b.toml\<newline>\<newline>```\<newline>[x]\<newline>y=1\<newline>```\<newline>\<newline>''
       @ ''### ./a.rs\<newline>\<newline>```\<newline>fn main(){}\<newline>```\<newline>\<newline>''"
  by (simp add: main_def read_files_recursively_def loop_body_def print_def valid_extensions_def
      path_simps tree_simps)

text \<open>
  C9. Called without an argument, \<^verbatim>\<open>read_files_recursively\<close> walks \<^verbatim>\<open>.\<close>, the current
  directory; and so does the script, whatever its command line.
\<close>

theorem default_root_is_current_directory:
  "read_files_recursively env None out = for_walk env (os_walk env ''.'') out
   \<and> fst (main env argv) = for_walk env (os_walk env ''.'') []"
  by (simp add: main_def read_files_recursively_def)

text \<open>
  C10. A file named \<^verbatim>\<open>.rs\<close>, \<^verbatim>\<open>.toml\<close> or \<^verbatim>\<open>.md\<close>, with nothing before the dot, has no
  extension for \<^verbatim>\<open>splitext\<close>, fails the test and prints nothing.
\<close>

theorem bare_suffix_name_is_excluded:
  assumes "file \<in> {''.rs'', ''.toml'', ''.md''}"
  shows "splitext file = (file, [])
       \<and> lower (snd (splitext file)) \<notin> {''.rs'', ''.toml'', ''.md''}
       \<and> loop_body env root file out = out"
proof -
  have s: "splitext file = (file, [])"
    using assms by (auto simp: splitext_def rfind_def)
  then have "\<not> matches (snd (root, file))"
    by (simp add: matches_def valid_extensions_def lower_def)
  then have "loop_body env root file out = out"
    by (simp add: loop_body_append emitted_no_match)
  with s show ?thesis
    by (simp add: lower_def)
qed

theorem bare_suffix_name_is_excluded_witness:
  "''.md'' \<in> {''.rs'', ''.toml'', ''.md''}
   \<and> splitext ''.md'' = (''.md'', [])
   \<and> lower (snd (splitext ''.md'')) \<notin> {''.rs'', ''.toml'', ''.md''}
   \<and> loop_body (tree_env class_name ''.'' [File ''.md'' (Bytes ''notes'')]) ''.'' ''.md'' [] = []
   \<and> fst (main (tree_env class_name ''.'' [File ''.md'' (Bytes ''notes''), File ''a.md'' (Bytes ''notes'')]) [])
       = ''### ./a.md\<newline>\<newline>```\<newline>notes\<newline>```\<newline>\<newline>''"
proof -
  have h: "''.md'' \<in> {''.rs'', ''.toml'', ''.md''}"
    by simp
  have "fst (main (tree_env class_name ''.'' [File ''.md'' (Bytes ''notes''), File ''a.md'' (Bytes ''notes'')]) [])
       = ''### ./a.md\<newline>\<newline>```\<newline>notes\<newline>```\<newline>\<newline>''"
    by (simp add: main_def read_files_recursively_def loop_body_def print_def valid_extensions_def
        path_simps tree_simps)
  then show ?thesis
    using bare_suffix_name_is_excluded [OF h,
        of "tree_env class_name ''.'' [File ''.md'' (Bytes ''notes'')]" "''.''" "[]"] h
    by (simp add: lower_def)
qed






end
